theory Spec2Isabelle
  imports Complex_Main "HOL-Library.Char_ord" "HOL-Library.List_Lexorder"
begin

section \<open>Data model (models.py, schemas.py)\<close>

text \<open>
  Timestamps are points on a discrete time line. Python floats and SQL Float columns are
  modelled as reals: the rounding of IEEE arithmetic is not part of this development.
\<close>

type_synonym timestamp = nat

text \<open>\<^verbatim>\<open>schemas.CountryCreate\<close>: the payload of an upsert, eight fields.\<close>

record country_create =
  name :: string
  capital :: "string option"
  region :: "string option"
  population :: int
  currency_code :: "string option"
  exchange_rate :: "real option"
  estimated_gdp :: "real option"
  flag_url :: "string option"

text \<open>
  \<^verbatim>\<open>models.Country\<close>: a row of table \<^verbatim>\<open>countries\<close>. The payload fields plus the
  primary key \<^verbatim>\<open>id\<close> and the column \<^verbatim>\<open>last_refreshed_at\<close>, which has
  \<^verbatim>\<open>server_default=func.now(), onupdate=func.now()\<close>.
\<close>

record country = country_create +
  country_id :: nat
  last_refreshed_at :: timestamp

text \<open>\<^verbatim>\<open>models.AppStatus\<close>: the singleton row with \<^verbatim>\<open>id = 1\<close>.\<close>

record app_status_row =
  status_id :: nat
  status_last_refreshed_at :: "timestamp option"

text \<open>
  The database: the rows of \<^verbatim>\<open>countries\<close> in insertion order, the autoincrement
  counter of its primary key, the row of \<^verbatim>\<open>app_status\<close> if there is one, and the
  backend's own function \<^verbatim>\<open>lower()\<close>, which a query applies to a column. That function
  differs between backends: MySQL with a Unicode character set lower-cases every letter,
  SQLite's built-in \<^verbatim>\<open>lower()\<close> only the ASCII letters.
\<close>

record database =
  countries :: "country list"
  next_id :: nat
  app_status :: "app_status_row option"
  sql_lower :: "string \<Rightarrow> string"

text \<open>
  The SQL standard leaves to the implementation whether NULL sorts below or above every
  other value. The connection string comes from the environment (config.py), so the
  backend is a parameter: MySQL, MariaDB, SQLite and SQL Server sort NULL lowest,
  PostgreSQL and Oracle sort it highest.
\<close>

datatype dialect = NullsSmallest | NullsLargest

section \<open>Case-insensitive names\<close>

text \<open>
  A character of the model is a code point below 256: ASCII and the Latin-1 supplement.
  \<^verbatim>\<open>name.lower()\<close> is Python's \<^verbatim>\<open>str.lower\<close>, which knows the letters of both blocks:
  the capitals are A to Z and the code points 0xC0 to 0xDE without the sign 0xD7, and
  each has its small letter 32 places up.
\<close>

definition lower_char :: "char \<Rightarrow> char" where
  "lower_char c =
     (let n = (of_char c :: nat)
      in if (65 \<le> n \<and> n \<le> 90) \<or> (192 \<le> n \<and> n \<le> 222 \<and> n \<noteq> 215)
         then char_of (n + 32) else c)"

definition lower :: "string \<Rightarrow> string" where
  "lower s = map lower_char s"

text \<open>
  A \<^verbatim>\<open>lower()\<close> that knows the ASCII letters only, as the built-in one of SQLite: it
  leaves a capital of the Latin-1 supplement as it is.
\<close>

definition ascii_lower_char :: "char \<Rightarrow> char" where
  "ascii_lower_char c =
     (let n = (of_char c :: nat) in if 65 \<le> n \<and> n \<le> 90 then char_of (n + 32) else c)"

definition ascii_lower :: "string \<Rightarrow> string" where
  "ascii_lower s = map ascii_lower_char s"

text \<open>Changing the case of one letter, and of any letters of a name.\<close>

definition swap_case_char :: "char \<Rightarrow> char" where
  "swap_case_char c =
     (let n = (of_char c :: nat) in
      if 65 \<le> n \<and> n \<le> 90 then char_of (n + 32)
      else if 97 \<le> n \<and> n \<le> 122 then char_of (n - 32)
      else c)"

definition same_char_up_to_case :: "char \<Rightarrow> char \<Rightarrow> bool" where
  "same_char_up_to_case a b = (b = a \<or> b = swap_case_char a)"

definition recased :: "string \<Rightarrow> string \<Rightarrow> bool" where
  "recased a b = list_all2 same_char_up_to_case a b"

section \<open>The store (crud.py)\<close>

text \<open>
  \<^verbatim>\<open>get_country_by_name\<close>:
  \<^verbatim>\<open>where(func.lower(models.Country.name) == name.lower())\<close> and
  \<^verbatim>\<open>result.scalars().first()\<close>, the first matching row. The column is lower-cased by
  the backend, the argument by Python, and the two strings are compared for equality (a
  collation that ignores case or accents would identify more names).
\<close>

definition get_country_by_name :: "database \<Rightarrow> string \<Rightarrow> country option" where
  "get_country_by_name db nm =
     find (\<lambda>c. sql_lower db (name c) = lower nm) (countries db)"

text \<open>
  \<^verbatim>\<open>ORDER BY\<close> as a stable insertion sort of the rows by a comparison
  \<open>le a b\<close> (row \<open>a\<close> may stand before row \<open>b\<close>). SQL does not fix the order of rows
  that compare equal; here they keep their table order.
\<close>

fun insert_by :: "('a \<Rightarrow> 'a \<Rightarrow> bool) \<Rightarrow> 'a \<Rightarrow> 'a list \<Rightarrow> 'a list" where
  "insert_by le x [] = [x]"
| "insert_by le x (y # ys) = (if le x y then x # y # ys else y # insert_by le x ys)"

definition order_by :: "('a \<Rightarrow> 'a \<Rightarrow> bool) \<Rightarrow> 'a list \<Rightarrow> 'a list" where
  "order_by le xs = foldr (insert_by le) xs []"

text \<open>The backend's ascending order on a nullable Float column.\<close>

fun sql_le :: "dialect \<Rightarrow> real option \<Rightarrow> real option \<Rightarrow> bool" where
  "sql_le d None None = True"
| "sql_le d None (Some y) = (d = NullsSmallest)"
| "sql_le d (Some x) None = (d = NullsLargest)"
| "sql_le d (Some x) (Some y) = (x \<le> y)"

text \<open>
  \<^verbatim>\<open>models.Country.estimated_gdp.desc()\<close> and \<^verbatim>\<open>models.Country.name.asc()\<close>. Names are
  compared code point by code point; the collation of a real backend may order them otherwise.
\<close>

definition estimated_gdp_desc :: "dialect \<Rightarrow> country \<Rightarrow> country \<Rightarrow> bool" where
  "estimated_gdp_desc d a b = sql_le d (estimated_gdp b) (estimated_gdp a)"

definition name_asc :: "country \<Rightarrow> country \<Rightarrow> bool" where
  "name_asc a b = (name a \<le> name b)"

text \<open>Python truthiness of an optional string: \<^verbatim>\<open>None\<close> and \<^verbatim>\<open>""\<close> are false.\<close>

fun truthy :: "string option \<Rightarrow> bool" where
  "truthy None = False"
| "truthy (Some s) = (s \<noteq> [])"

text \<open>
  \<^verbatim>\<open>get_countries(db, region, currency, sort, skip=0, limit=100)\<close>. A comparison with
  \<^verbatim>\<open>==\<close> against a NULL column selects nothing.
\<close>

definition get_countries ::
  "dialect \<Rightarrow> database \<Rightarrow> string option \<Rightarrow> string option \<Rightarrow> string option \<Rightarrow> nat \<Rightarrow> nat
     \<Rightarrow> country list" where
  "get_countries d db region_arg currency sort_arg skip limit =
     (let q0 = countries db;
          q1 = (if truthy region_arg then filter (\<lambda>c. region c = region_arg) q0 else q0);
          q2 = (if truthy currency then filter (\<lambda>c. currency_code c = currency) q1 else q1);
          q3 = (if sort_arg = Some ''gdp_desc'' then order_by (estimated_gdp_desc d) q2
                else order_by name_asc q2)
      in take limit (drop skip q3))"

definition get_countries_count :: "database \<Rightarrow> nat" where
  "get_countries_count db = length (countries db)"

text \<open>
  \<^verbatim>\<open>update(models.Country).where(id == db_country.id).values(**country_dict)\<close>: the eight
  payload columns are overwritten and \<^verbatim>\<open>onupdate=func.now()\<close> sets
  \<^verbatim>\<open>last_refreshed_at\<close>; the key stays.
\<close>

definition update_values :: "country_create \<Rightarrow> timestamp \<Rightarrow> country \<Rightarrow> country" where
  "update_values d now c =
     c\<lparr>name := name d, capital := capital d, region := region d, population := population d,
       currency_code := currency_code d, exchange_rate := exchange_rate d,
       estimated_gdp := estimated_gdp d, flag_url := flag_url d, last_refreshed_at := now\<rparr>"

text \<open>\<^verbatim>\<open>models.Country(**country_dict)\<close> flushed: a new key, \<^verbatim>\<open>server_default=func.now()\<close>.\<close>

definition new_country :: "nat \<Rightarrow> timestamp \<Rightarrow> country_create \<Rightarrow> country" where
  "new_country i now d =
     \<lparr>name = name d, capital = capital d, region = region d, population = population d,
      currency_code = currency_code d, exchange_rate = exchange_rate d,
      estimated_gdp = estimated_gdp d, flag_url = flag_url d,
      country_id = i, last_refreshed_at = now\<rparr>"

text \<open>
  \<^verbatim>\<open>upsert_country\<close>, with the reading \<open>now\<close> of the database clock at the write. The
  ORM object it returns is dropped by its only caller, so the model returns the store.
  The flag URL is written as its string; what a driver does with the URL object that
  \<^verbatim>\<open>model_dump()\<close> hands it is not part of the model.
\<close>

definition upsert_country :: "timestamp \<Rightarrow> database \<Rightarrow> country_create \<Rightarrow> database" where
  "upsert_country now db country_data =
     (case get_country_by_name db (name country_data) of
        Some db_country \<Rightarrow>
          db\<lparr>countries :=
               map (\<lambda>c. if country_id c = country_id db_country
                         then update_values country_data now c else c) (countries db)\<rparr>
      | None \<Rightarrow>
          db\<lparr>countries := countries db @ [new_country (next_id db) now country_data],
             next_id := Suc (next_id db)\<rparr>)"

text \<open>\<^verbatim>\<open>delete_country_by_name\<close>: the row found is deleted by its key, and returned.\<close>

definition delete_country_by_name :: "database \<Rightarrow> string \<Rightarrow> database \<times> country option" where
  "delete_country_by_name db nm =
     (case get_country_by_name db nm of
        Some db_country \<Rightarrow>
          (db\<lparr>countries := filter (\<lambda>c. country_id c \<noteq> country_id db_country) (countries db)\<rparr>,
           Some db_country)
      | None \<Rightarrow> (db, None))"

text \<open>\<^verbatim>\<open>get_top_gdp_countries(db, limit=5)\<close>.\<close>

definition get_top_gdp_countries :: "dialect \<Rightarrow> database \<Rightarrow> nat \<Rightarrow> country list" where
  "get_top_gdp_countries d db limit = take limit (order_by (estimated_gdp_desc d) (countries db))"

definition get_app_status :: "database \<Rightarrow> app_status_row option" where
  "get_app_status db = app_status db"

definition update_app_status :: "database \<Rightarrow> timestamp \<Rightarrow> database" where
  "update_app_status db refresh_time =
     (case get_app_status db of
        Some status \<Rightarrow>
          db\<lparr>app_status := Some (status\<lparr>status_last_refreshed_at := Some refresh_time\<rparr>)\<rparr>
      | None \<Rightarrow>
          db\<lparr>app_status := Some \<lparr>status_id = 1, status_last_refreshed_at = Some refresh_time\<rparr>\<rparr>)"

section \<open>External sources (services.py)\<close>

text \<open>
  What can be raised during a refresh: the custom \<^verbatim>\<open>ServiceUnavailableException\<close>
  with its \<^verbatim>\<open>api_name\<close> and \<^verbatim>\<open>details\<close>; httpx's \<^verbatim>\<open>HTTPStatusError\<close> from
  \<^verbatim>\<open>raise_for_status\<close>; pydantic's \<^verbatim>\<open>ValidationError\<close> from \<^verbatim>\<open>CountryCreate\<close>; and
  whatever the rendering of the image raises.
\<close>

datatype exn =
    ServiceUnavailableException string string
  | HTTPStatusError nat
  | ValidationError
  | RenderError

text \<open>
  What \<^verbatim>\<open>client.get(url, timeout=10.0)\<close> does: it raises an \<^verbatim>\<open>httpx.RequestError\<close>
  (transport failures; \<^verbatim>\<open>httpx.TimeoutException\<close> is one of its subclasses), or it
  returns a response with a status code and a parsed body.
\<close>

datatype 'a http_outcome = RequestError string | Response nat 'a

text \<open>
  \<^verbatim>\<open>response.raise_for_status()\<close> raises \<^verbatim>\<open>httpx.HTTPStatusError\<close> unless the status is a
  success. In httpx that class derives from \<^verbatim>\<open>HTTPError\<close> beside \<^verbatim>\<open>RequestError\<close>, not
  from it, so \<^verbatim>\<open>except (httpx.RequestError, httpx.TimeoutException)\<close> lets it pass.
\<close>

definition raise_for_status :: "nat \<Rightarrow> exn option" where
  "raise_for_status code =
     (if 200 \<le> code \<and> code < 300 then None else Some (HTTPStatusError code))"

text \<open>\<^verbatim>\<open>fetch_exchange_rates\<close>; the body is the entry \<^verbatim>\<open>"rates"\<close> of the JSON object, if any.\<close>

definition fetch_exchange_rates ::
  "(string \<rightharpoonup> real) option http_outcome \<Rightarrow> exn + (string \<rightharpoonup> real)" where
  "fetch_exchange_rates outcome =
     (case outcome of
        RequestError e \<Rightarrow> Inl (ServiceUnavailableException ''Exchange Rates API'' e)
      | Response code body \<Rightarrow>
          (case raise_for_status code of
             Some ex \<Rightarrow> Inl ex
           | None \<Rightarrow> Inr (case body of Some rates \<Rightarrow> rates | None \<Rightarrow> Map.empty)))"

text \<open>
  A raw country record, as the results of \<^verbatim>\<open>country_data.get(...)\<close> on its six keys. The
  value under \<^verbatim>\<open>"currencies"\<close> is a list or not; an entry of the list is a dict or not;
  a dict maps keys to strings or null.
\<close>

datatype currency_entry = Dict "(string \<times> string option) list" | NotDict

datatype currencies_value = PyList "currency_entry list" | NotList

record raw_country =
  raw_name :: "string option"
  raw_capital :: "string option"
  raw_region :: "string option"
  raw_population :: "int option"
  raw_currencies :: currencies_value
  raw_flag :: "string option"

definition fetch_countries_data ::
  "raw_country list http_outcome \<Rightarrow> exn + raw_country list" where
  "fetch_countries_data outcome =
     (case outcome of
        RequestError e \<Rightarrow> Inl (ServiceUnavailableException ''RestCountries API'' e)
      | Response code body \<Rightarrow>
          (case raise_for_status code of Some ex \<Rightarrow> Inl ex | None \<Rightarrow> Inr body))"

text \<open>
  \<^verbatim>\<open>asyncio.gather\<close> of the two fetches: the first exception raised is propagated. When
  both fail, \<open>rates_first\<close> says which of them failed first.
\<close>

definition gather :: "bool \<Rightarrow> exn + 'a \<Rightarrow> exn + 'b \<Rightarrow> exn + ('a \<times> 'b)" where
  "gather rates_first a b =
     (case a of
        Inl ea \<Rightarrow> (case b of Inl eb \<Rightarrow> Inl (if rates_first then ea else eb) | Inr _ \<Rightarrow> Inl ea)
      | Inr x \<Rightarrow> (case b of Inl eb \<Rightarrow> Inl eb | Inr y \<Rightarrow> Inr (x, y)))"

section \<open>GDP estimation (services.py, the body of the loop)\<close>

text \<open>
  \<^verbatim>\<open>random.randint(a, b)\<close> against a stream of entropy: a value between \<open>a\<close> and \<open>b\<close>
  inclusive, and the rest of the stream.
\<close>

type_synonym rng = "nat \<Rightarrow> nat"

definition randint :: "int \<Rightarrow> int \<Rightarrow> rng \<Rightarrow> int \<times> rng" where
  "randint a b g = (a + int (g 0 mod nat (b - a + 1)), \<lambda>n. g (Suc n))"

text \<open>\<^verbatim>\<open>first_currency.get("code")\<close>: a missing key and a null both give \<^verbatim>\<open>None\<close>.\<close>

definition dict_get :: "(string \<times> string option) list \<Rightarrow> string \<Rightarrow> string option" where
  "dict_get kv k = (case map_of kv k of Some v \<Rightarrow> v | None \<Rightarrow> None)"

text \<open>
  \<^verbatim>\<open>if currencies and isinstance(currencies, list)\<close>: a non-empty list; then its first
  entry, if that is a dict.
\<close>

definition extract_currency_code :: "currencies_value \<Rightarrow> string option" where
  "extract_currency_code currencies =
     (case currencies of
        PyList (first_currency # _) \<Rightarrow>
          (case first_currency of Dict kv \<Rightarrow> dict_get kv ''code'' | NotDict \<Rightarrow> None)
      | _ \<Rightarrow> None)"

text \<open>
  The chain \<^verbatim>\<open>if currency_code and currency_code in rates ... elif currency_code ... else\<close>,
  giving \<^verbatim>\<open>(currency_code, exchange_rate, estimated_gdp)\<close> and the entropy left.
\<close>

definition estimate ::
  "(string \<rightharpoonup> real) \<Rightarrow> int \<Rightarrow> string option \<Rightarrow> rng
     \<Rightarrow> (string option \<times> real option \<times> real option) \<times> rng" where
  "estimate rates pop code_opt g =
     (if truthy code_opt then
        (case code_opt of
           Some code \<Rightarrow>
             (case rates code of
                Some rate \<Rightarrow>
                  if rate > 0 then
                    (let (random_multiplier, g') = randint 1000 2000 g
                     in ((Some code, Some rate, Some (real_of_int (pop * random_multiplier) / rate)), g'))
                  else ((Some code, Some rate, Some 0), g)
              | None \<Rightarrow> ((Some code, None, None), g))
         | None \<Rightarrow> ((None, None, Some 0), g))
      else ((None, None, Some 0), g))"

text \<open>
  \<^verbatim>\<open>schemas.CountryCreate(...)\<close>. The fields are typed already, but \<^verbatim>\<open>flag_url\<close> is an
  \<^verbatim>\<open>HttpUrl\<close>: \<open>http_url\<close> is pydantic's parser, giving the URL kept or nothing when
  the string is rejected.
\<close>

definition country_payload ::
  "(string \<Rightarrow> string option) \<Rightarrow> string \<Rightarrow> int \<Rightarrow> raw_country
     \<Rightarrow> string option \<times> real option \<times> real option \<Rightarrow> exn + country_create" where
  "country_payload http_url nm pop country_data est =
     (let payload = \<lparr>name = nm, capital = raw_capital country_data,
                     region = raw_region country_data, population = pop,
                     currency_code = fst est, exchange_rate = fst (snd est),
                     estimated_gdp = snd (snd est), flag_url = None\<rparr>
      in case raw_flag country_data of
           None \<Rightarrow> Inr payload
         | Some u \<Rightarrow>
             (case http_url u of
                None \<Rightarrow> Inl ValidationError
              | Some u' \<Rightarrow> Inr (payload\<lparr>flag_url := Some u'\<rparr>)))"

section \<open>The refresh cycle (services.py)\<close>

text \<open>
  The session of one cycle: the uncommitted store, the entropy left, and the readings of
  the database clock (\<^verbatim>\<open>func.now()\<close>) still to come, one for each write.
\<close>

record session =
  session_db :: database
  session_rng :: rng
  session_clock :: "nat \<Rightarrow> timestamp"

text \<open>One turn of \<^verbatim>\<open>for country_data in countries\<close>; \<^verbatim>\<open>continue\<close> leaves the session as it is.\<close>

definition process_country ::
  "(string \<Rightarrow> string option) \<Rightarrow> (string \<rightharpoonup> real) \<Rightarrow> session \<Rightarrow> raw_country \<Rightarrow> exn + session" where
  "process_country http_url rates s country_data =
     (case (raw_name country_data, raw_population country_data) of
        (Some nm, Some pop) \<Rightarrow>
          if nm = [] then Inr s
          else
            (let (est, g') = estimate rates pop
                               (extract_currency_code (raw_currencies country_data))
                               (session_rng s)
             in case country_payload http_url nm pop country_data est of
                  Inl ex \<Rightarrow> Inl ex
                | Inr payload \<Rightarrow>
                    Inr \<lparr>session_db = upsert_country (session_clock s 0) (session_db s) payload,
                         session_rng = g',
                         session_clock = (\<lambda>n. session_clock s (Suc n))\<rparr>)
      | _ \<Rightarrow> Inr s)"

fun process_countries ::
  "(string \<Rightarrow> string option) \<Rightarrow> (string \<rightharpoonup> real) \<Rightarrow> session \<Rightarrow> raw_country list \<Rightarrow> exn + session" where
  "process_countries http_url rates s [] = Inr s"
| "process_countries http_url rates s (country_data # rest) =
     (case process_country http_url rates s country_data of
        Inl ex \<Rightarrow> Inl ex
      | Inr s' \<Rightarrow> process_countries http_url rates s' rest)"

text \<open>
  The world around one refresh: what the two HTTP calls do, which fails first, the
  application clock (\<^verbatim>\<open>datetime.now(timezone.utc)\<close>), the database clock, the entropy,
  pydantic's URL parser, whether rendering and saving the image goes through, and the
  backend.
\<close>

record env =
  rates_http :: "(string \<rightharpoonup> real) option http_outcome"
  countries_http :: "raw_country list http_outcome"
  rates_fail_first :: bool
  utc_now :: timestamp
  db_now :: "nat \<Rightarrow> timestamp"
  entropy :: rng
  http_url_parser :: "string \<Rightarrow> string option"
  image_save :: bool
  backend :: dialect

text \<open>\<^verbatim>\<open>generate_summary_image\<close>: three reads of the store, then the rendering.\<close>

record summary =
  total :: nat
  top_5 :: "country list"
  timestamp_shown :: "timestamp option"

definition generate_summary_image :: "env \<Rightarrow> database \<Rightarrow> exn + summary" where
  "generate_summary_image e db =
     (let tot = get_countries_count db;
          top = get_top_gdp_countries (backend e) db 5;
          ts = (case get_app_status db of
                  Some st \<Rightarrow> status_last_refreshed_at st
                | None \<Rightarrow> None)
      in if image_save e then Inr \<lparr>total = tot, top_5 = top, timestamp_shown = ts\<rparr>
         else Inl RenderError)"

text \<open>\<^verbatim>\<open>{"status": "success", "refreshed_at": refresh_time}\<close>.\<close>

record refresh_result =
  status :: string
  refreshed_at :: timestamp

text \<open>
  \<^verbatim>\<open>process_and_cache_countries\<close>: the outcome, and the committed store afterwards. An
  exception before \<^verbatim>\<open>db.commit()\<close> ends the session without a commit, so the store is
  the one before; after the commit it is the new one whatever follows.
\<close>

definition process_and_cache_countries :: "env \<Rightarrow> database \<Rightarrow> (exn + refresh_result) \<times> database" where
  "process_and_cache_countries e db =
     (case gather (rates_fail_first e) (fetch_exchange_rates (rates_http e))
                  (fetch_countries_data (countries_http e)) of
        Inl ex \<Rightarrow> (Inl ex, db)
      | Inr (rates, raws) \<Rightarrow>
          (let refresh_time = utc_now e
           in case process_countries (http_url_parser e) rates
                     \<lparr>session_db = db, session_rng = entropy e, session_clock = db_now e\<rparr> raws of
                Inl ex \<Rightarrow> (Inl ex, db)
              | Inr s \<Rightarrow>
                  (let committed = update_app_status (session_db s) refresh_time
                   in case generate_summary_image e committed of
                        Inl ex \<Rightarrow> (Inl ex, committed)
                      | Inr _ \<Rightarrow>
                          (Inr \<lparr>status = ''success'', refreshed_at = refresh_time\<rparr>, committed))))"

section \<open>The HTTP layer (main.py)\<close>

datatype content = RefreshContent refresh_result | ErrorContent string "string option"

record json_response =
  status_code :: nat
  content :: content

definition service_unavailable_handler :: "string \<Rightarrow> json_response" where
  "service_unavailable_handler api_name =
     \<lparr>status_code = 503,
      content = ErrorContent ''External data source unavailable''
                  (Some (''Could not fetch data from '' @ api_name))\<rparr>"

definition generic_exception_handler :: json_response where
  "generic_exception_handler =
     \<lparr>status_code = 500, content = ErrorContent ''Internal server error'' None\<rparr>"

text \<open>The handler registered for the class of the exception.\<close>

fun exception_handler :: "exn \<Rightarrow> json_response" where
  "exception_handler (ServiceUnavailableException api_name details) =
     service_unavailable_handler api_name"
| "exception_handler ex = generic_exception_handler"

text \<open>\<^verbatim>\<open>POST /countries/refresh\<close>.\<close>

definition refresh_countries_data :: "env \<Rightarrow> database \<Rightarrow> json_response \<times> database" where
  "refresh_countries_data e db =
     (case process_and_cache_countries e db of
        (Inl ex, db') \<Rightarrow> (exception_handler ex, db')
      | (Inr result, db') \<Rightarrow> (\<lparr>status_code = 200, content = RefreshContent result\<rparr>, db'))"

text \<open>
  \<^verbatim>\<open>GET /countries\<close>: \<^verbatim>\<open>crud.get_countries(db, region=region, currency=currency, sort=sort)\<close>,
  so \<^verbatim>\<open>skip\<close> and \<^verbatim>\<open>limit\<close> take their defaults 0 and 100.
\<close>

definition get_all_countries ::
  "dialect \<Rightarrow> database \<Rightarrow> string option \<Rightarrow> string option \<Rightarrow> string option \<Rightarrow> country list" where
  "get_all_countries d db region_arg currency sort_arg =
     get_countries d db region_arg currency sort_arg 0 100"

section \<open>Properties to be checked\<close>

text \<open>
  Rows in descending order of \<^verbatim>\<open>estimated_gdp\<close> with the nulls last: of two rows, the
  earlier one has the greater or equal value, or the later one has none; a row with no
  value never stands before a row with one.
\<close>

fun nulls_last_ge :: "real option \<Rightarrow> real option \<Rightarrow> bool" where
  "nulls_last_ge (Some x) (Some y) = (y \<le> x)"
| "nulls_last_ge (Some x) None = True"
| "nulls_last_ge None None = True"
| "nulls_last_ge None (Some y) = False"

definition gdp_desc_nulls_last :: "country list \<Rightarrow> bool" where
  "gdp_desc_nulls_last rows =
     sorted_wrt (\<lambda>a b. nulls_last_ge (estimated_gdp a) (estimated_gdp b)) rows"

text \<open>The payload columns of a row.\<close>

definition payload_of :: "country \<Rightarrow> country_create" where
  "payload_of c =
     \<lparr>name = name c, capital = capital c, region = region c, population = population c,
      currency_code = currency_code c, exchange_rate = exchange_rate c,
      estimated_gdp = estimated_gdp c, flag_url = flag_url c\<rparr>"

text \<open>The rows of a store that bear a name, whatever its case (by \<^verbatim>\<open>str.lower\<close>).\<close>

definition rows_named :: "database \<Rightarrow> string \<Rightarrow> country list" where
  "rows_named db nm = filter (\<lambda>c. lower (name c) = lower nm) (countries db)"

text \<open>
  At most one row for each case-insensitive name. The table declares no such constraint;
  the operations of the store keep it.
\<close>

definition unique_names :: "database \<Rightarrow> bool" where
  "unique_names db = distinct (map (\<lambda>c. lower (name c)) (countries db))"

text \<open>What the primary key with autoincrement gives: keys are distinct and below the counter.\<close>

definition primary_key :: "database \<Rightarrow> bool" where
  "primary_key db =
     (distinct (map country_id (countries db)) \<and>
      list_all (\<lambda>i. i < next_id db) (map country_id (countries db)))"



text \<open>
  The decision table of the estimator, in the words of the specification: no currency
  gives \<open>(null, null, 0.0)\<close>; a code that the rate table lacks gives
  \<open>(code, null, null)\<close>; a rate that is not positive gives \<open>(code, rate, 0.0)\<close>; a
  positive rate gives \<open>(code, rate, population * m / rate)\<close> for the multiplier \<open>m\<close>.
  A code that is the empty string counts as no currency.
\<close>

definition decision_table ::
  "(string \<rightharpoonup> real) \<Rightarrow> int \<Rightarrow> string option \<Rightarrow> int
     \<Rightarrow> string option \<times> real option \<times> real option" where
  "decision_table rates pop code_opt m =
     (case code_opt of
        None \<Rightarrow> (None, None, Some 0)
      | Some code \<Rightarrow>
          if code = [] then (None, None, Some 0)
          else (case rates code of
                  None \<Rightarrow> (Some code, None, None)
                | Some rate \<Rightarrow>
                    if rate \<le> 0 then (Some code, Some rate, Some 0)
                    else (Some code, Some rate,
                          Some (real_of_int pop * real_of_int m / rate))))"

section \<open>Sample inputs\<close>

text \<open>An empty store on a backend whose \<^verbatim>\<open>lower()\<close> agrees with Python's, and one on a
  backend whose \<^verbatim>\<open>lower()\<close> knows ASCII only.\<close>

definition empty_database :: database where
  "empty_database = \<lparr>countries = [], next_id = 1, app_status = None, sql_lower = lower\<rparr>"

definition empty_sqlite :: database where
  "empty_sqlite = \<lparr>countries = [], next_id = 1, app_status = None, sql_lower = ascii_lower\<rparr>"

text \<open>Two rows, one with an estimate and one without.\<close>

definition sample_row :: "nat \<Rightarrow> string \<Rightarrow> real option \<Rightarrow> country" where
  "sample_row i nm gdp =
     \<lparr>name = nm, capital = None, region = None, population = 1000, currency_code = None,
      exchange_rate = None, estimated_gdp = gdp, flag_url = None,
      country_id = i, last_refreshed_at = 0\<rparr>"

definition ghana_and_nauru :: database where
  "ghana_and_nauru =
     \<lparr>countries = [sample_row 1 ''Ghana'' (Some 5), sample_row 2 ''Nauru'' None],
      next_id = 3, app_status = None, sql_lower = lower\<rparr>"

text \<open>Raw records: one with no currency list, one with a currency, one with no name, and one
  whose first currency entry is not a dict.\<close>

definition wakanda :: raw_country where
  "wakanda =
     \<lparr>raw_name = Some ''Wakanda'', raw_capital = None, raw_region = None,
      raw_population = Some 1000000, raw_currencies = PyList [], raw_flag = None\<rparr>"

definition freedonia :: raw_country where
  "freedonia =
     \<lparr>raw_name = Some ''Freedonia'', raw_capital = None, raw_region = None,
      raw_population = Some 1000,
      raw_currencies = PyList [Dict [(''code'', Some ''USD''), (''name'', Some ''Dollar'')]],
      raw_flag = None\<rparr>"

definition nameless :: raw_country where
  "nameless =
     \<lparr>raw_name = None, raw_capital = None, raw_region = None,
      raw_population = Some 5, raw_currencies = PyList [], raw_flag = None\<rparr>"

definition atlantis :: raw_country where
  "atlantis =
     \<lparr>raw_name = Some ''Atlantis'', raw_capital = None, raw_region = None,
      raw_population = Some 7,
      raw_currencies = PyList [NotDict, Dict [(''code'', Some ''USD'')]],
      raw_flag = None\<rparr>"

definition usd_rates :: "string \<rightharpoonup> real" where
  "usd_rates = [''USD'' \<mapsto> 2]"

text \<open>A world in which everything works: the application clock reads 100, the database
  clock 101 and onwards.\<close>

definition sample_env :: env where
  "sample_env =
     \<lparr>rates_http = Response 200 (Some usd_rates),
      countries_http = Response 200 [wakanda],
      rates_fail_first = True,
      utc_now = 100,
      db_now = (\<lambda>n. 101 + n),
      entropy = (\<lambda>n. 0),
      http_url_parser = Some,
      image_save = True,
      backend = NullsSmallest\<rparr>"

definition sample_session :: session where
  "sample_session =
     \<lparr>session_db = empty_database, session_rng = (\<lambda>n. 0), session_clock = (\<lambda>n. 101 + n)\<rparr>"

text \<open>Two payloads for one name in two cases.\<close>

definition nigeria_first :: country_create where
  "nigeria_first =
     \<lparr>name = ''Nigeria'', capital = Some ''Lagos'', region = Some ''Africa'', population = 1,
      currency_code = None, exchange_rate = None, estimated_gdp = Some 0, flag_url = None\<rparr>"

definition nigeria_second :: country_create where
  "nigeria_second =
     \<lparr>name = ''NIGERIA'', capital = Some ''Abuja'', region = Some ''Africa'', population = 2,
      currency_code = Some ''NGN'', exchange_rate = None, estimated_gdp = None, flag_url = None\<rparr>"

text \<open>
  The name of the Aland Islands as the country source delivers it: its first letter is
  the A with a ring, code point 0xC5, a capital of the Latin-1 supplement. Two payloads
  under that name.
\<close>

definition aland_islands :: string where
  "aland_islands = CHR 0xC5 # ''land Islands''"

definition aland_first :: country_create where
  "aland_first =
     \<lparr>name = aland_islands, capital = Some ''Mariehamn'', region = Some ''Europe'',
      population = 1, currency_code = Some ''EUR'', exchange_rate = None, estimated_gdp = None,
      flag_url = None\<rparr>"

definition aland_second :: country_create where
  "aland_second =
     \<lparr>name = aland_islands, capital = Some ''Mariehamn'', region = Some ''Europe'',
      population = 2, currency_code = Some ''EUR'', exchange_rate = None, estimated_gdp = None,
      flag_url = None\<rparr>"

section \<open>Ordering of query results\<close>

lemma length_insert_by: "length (insert_by le x xs) = Suc (length xs)"
  by (induction xs) auto

lemma length_order_by: "length (order_by le xs) = length xs"
  by (induction xs) (auto simp: order_by_def length_insert_by)

lemma set_insert_by: "set (insert_by le x xs) = insert x (set xs)"
  by (induction xs) auto

lemma sorted_wrt_insert_by:
  assumes tot: "\<And>a b. le a b \<or> le b a" and tr: "\<And>a b c. le a b \<Longrightarrow> le b c \<Longrightarrow> le a c"
  shows "sorted_wrt le xs \<Longrightarrow> sorted_wrt le (insert_by le x xs)"
proof (induction xs)
  case Nil
  then show ?case by simp
next
  case (Cons y ys)
  show ?case
  proof (cases "le x y")
    case True
    with Cons.prems tr show ?thesis by auto
  next
    case False
    with tot have "le y x" by blast
    with Cons False show ?thesis by (auto simp: set_insert_by)
  qed
qed

lemma sorted_wrt_order_by:
  assumes tot: "\<And>a b. le a b \<or> le b a" and tr: "\<And>a b c. le a b \<Longrightarrow> le b c \<Longrightarrow> le a c"
  shows "sorted_wrt le (order_by le xs)"
proof (induction xs)
  case Nil
  show ?case by (simp add: order_by_def)
next
  case (Cons x xs)
  have "order_by le (x # xs) = insert_by le x (order_by le xs)" by (simp add: order_by_def)
  with Cons sorted_wrt_insert_by[of le, OF tot tr] show ?case by simp
qed

lemma sql_le_total: "sql_le d a b \<or> sql_le d b a"
  by (cases a; cases b; cases d) auto

lemma sql_le_trans: "sql_le d a b \<Longrightarrow> sql_le d b c \<Longrightarrow> sql_le d a c"
  by (cases a; cases b; cases c; cases d) auto

text \<open>On either backend the query result is sorted by the backend's own order.\<close>

lemma sorted_estimated_gdp_desc:
  "sorted_wrt (estimated_gdp_desc d) (order_by (estimated_gdp_desc d) rows)"
proof (rule sorted_wrt_order_by)
  show "\<And>a b. estimated_gdp_desc d a b \<or> estimated_gdp_desc d b a"
    by (simp add: estimated_gdp_desc_def sql_le_total)
  show "\<And>a b c. estimated_gdp_desc d a b \<Longrightarrow> estimated_gdp_desc d b c \<Longrightarrow> estimated_gdp_desc d a c"
    unfolding estimated_gdp_desc_def by (blast intro: sql_le_trans)
qed

lemma nulls_smallest_desc: "sql_le NullsSmallest b a = nulls_last_ge a b"
  by (cases a; cases b) auto

lemma nulls_last_order_by:
  "gdp_desc_nulls_last (order_by (estimated_gdp_desc NullsSmallest) rows)"
  using sorted_estimated_gdp_desc [of NullsSmallest rows]
  by (simp add: gdp_desc_nulls_last_def estimated_gdp_desc_def [abs_def] nulls_smallest_desc)

lemma nulls_last_take_drop:
  "gdp_desc_nulls_last rows \<Longrightarrow> gdp_desc_nulls_last (take n (drop k rows))"
  unfolding gdp_desc_nulls_last_def by (simp add: sorted_wrt_take sorted_wrt_drop)

text \<open>
  The predicate read by positions: a row with no estimate is followed only by rows with
  none, and the estimates that are there do not increase.
\<close>

lemma gdp_desc_nulls_last_iff:
  "gdp_desc_nulls_last rows \<longleftrightarrow>
     (\<forall>i j. i < j \<longrightarrow> j < length rows \<longrightarrow>
        (estimated_gdp (rows ! i) = None \<longrightarrow> estimated_gdp (rows ! j) = None) \<and>
        (\<forall>x y. estimated_gdp (rows ! i) = Some x \<longrightarrow> estimated_gdp (rows ! j) = Some y \<longrightarrow> y \<le> x))"
proof -
  have "nulls_last_ge a b \<longleftrightarrow> (a = None \<longrightarrow> b = None) \<and> (\<forall>x y. a = Some x \<longrightarrow> b = Some y \<longrightarrow> y \<le> x)"
    for a b by (cases a; cases b) auto
  then show ?thesis
    unfolding gdp_desc_nulls_last_def sorted_wrt_iff_nth_less by simp
qed

text \<open>
  On a backend that sorts NULL below every value, \<^verbatim>\<open>get_countries\<close> with
  \<^verbatim>\<open>sort="gdp_desc"\<close> and \<^verbatim>\<open>get_top_gdp_countries\<close> return, for every store, filter,
  offset and limit, rows in which every row without an estimate comes after every row
  with one and the estimates do not increase.
\<close>

theorem gdp_desc_nulls_last_on_nulls_smallest:
  "gdp_desc_nulls_last
     (get_countries NullsSmallest db region_arg currency (Some ''gdp_desc'') skip limit) \<and>
   gdp_desc_nulls_last (get_top_gdp_countries NullsSmallest db n)"
proof
  show "gdp_desc_nulls_last
          (get_countries NullsSmallest db region_arg currency (Some ''gdp_desc'') skip limit)"
    unfolding get_countries_def Let_def
    by (simp add: nulls_last_take_drop nulls_last_order_by)
  have "gdp_desc_nulls_last
          (take n (drop 0 (order_by (estimated_gdp_desc NullsSmallest) (countries db))))"
    by (rule nulls_last_take_drop) (rule nulls_last_order_by)
  then show "gdp_desc_nulls_last (get_top_gdp_countries NullsSmallest db n)"
    by (simp add: get_top_gdp_countries_def)
qed

text \<open>
  Claim C1, where the code departs from it: the comment in \<^verbatim>\<open>get_countries\<close> says
  \<^verbatim>\<open>Sort by GDP, putting NULLs last\<close>, but both queries ask for
  \<^verbatim>\<open>ORDER BY estimated_gdp DESC\<close> and nothing about nulls (no \<^verbatim>\<open>nulls_last()\<close>). On a
  backend that sorts NULL above every value, the row of Nauru, which has no estimate,
  comes before the row of Ghana, which has one, in the list and in the top rows alike.
\<close>

theorem nulls_first_on_nulls_largest:
  "map name (get_countries NullsLargest ghana_and_nauru None None (Some ''gdp_desc'') 0 100) =
     [''Nauru'', ''Ghana''] \<and>
   map estimated_gdp (get_top_gdp_countries NullsLargest ghana_and_nauru 5) = [None, Some 5] \<and>
   \<not> gdp_desc_nulls_last
        (get_countries NullsLargest ghana_and_nauru None None (Some ''gdp_desc'') 0 100) \<and>
   \<not> gdp_desc_nulls_last (get_top_gdp_countries NullsLargest ghana_and_nauru 5)"
  by (simp add: get_countries_def get_top_gdp_countries_def ghana_and_nauru_def sample_row_def
        order_by_def estimated_gdp_desc_def gdp_desc_nulls_last_def)

text \<open>
  Claim C9: whatever the store and the parameters \<^verbatim>\<open>region\<close>, \<^verbatim>\<open>currency\<close> and
  \<^verbatim>\<open>sort\<close>, \<^verbatim>\<open>GET /countries\<close> returns at most 100 rows, and they are the first 100 rows,
  from offset 0, of what the same query returns with any larger limit: the rows after
  them are left out.
\<close>

theorem get_all_countries_first_100:
  "length (get_all_countries d db region_arg currency sort_arg) \<le> 100 \<and>
   get_all_countries d db region_arg currency sort_arg =
     take 100 (get_countries d db region_arg currency sort_arg 0 (100 + k))"
  by (simp add: get_all_countries_def get_countries_def Let_def min_def)

section \<open>Lookup by name\<close>

lemma lower_char_swap_case: "lower_char (swap_case_char c) = lower_char c"
  by (auto simp add: lower_char_def swap_case_char_def Let_def)

lemma recased_lower: "recased a b \<Longrightarrow> lower a = lower b"
  unfolding recased_def
  by (induction a b rule: list_all2_induct)
     (auto simp: lower_def same_char_up_to_case_def lower_char_swap_case)

lemma lower_samples:
  "lower ''Nigeria'' = ''nigeria''" "lower ''NIGERIA'' = ''nigeria''"
  by code_simp+

text \<open>The two functions part on the name of the Aland Islands.\<close>

lemma aland_lowered:
  "lower aland_islands = CHR 0xE5 # ''land islands''"
  "ascii_lower aland_islands = CHR 0xC5 # ''land islands''"
  by code_simp+

lemma aland_not_found: "ascii_lower aland_islands \<noteq> lower aland_islands"
  by code_simp

text \<open>
  Claim C8: \<^verbatim>\<open>get_country_by_name\<close> does not see the case of the letters of its argument.
  For every store, two names that differ only in the case of some letters give the same
  row, or both give none.
\<close>

theorem get_country_by_name_recased:
  "recased a b \<Longrightarrow> get_country_by_name db a = get_country_by_name db b"
  by (simp add: get_country_by_name_def recased_lower)

theorem get_country_by_name_recased_witness:
  "recased ''Nigeria'' ''nigeria'' \<and>
   (\<forall>db. get_country_by_name db ''Nigeria'' = get_country_by_name db ''nigeria'')"
proof -
  have r: "recased ''Nigeria'' ''nigeria''" by code_simp
  show ?thesis using r get_country_by_name_recased [OF r] by simp
qed

section \<open>Upsert\<close>

lemma payload_of_update_values [simp]: "payload_of (update_values d now c) = d"
  by (simp add: payload_of_def update_values_def)

lemma payload_of_new_country [simp]: "payload_of (new_country i now d) = d"
  by (simp add: payload_of_def new_country_def)

lemma update_values_eq_new_country:
  "update_values d now c = new_country (country_id c) now d"
  by (simp add: update_values_def new_country_def)

lemma name_update_values [simp]: "name (update_values d now c) = name d"
  by (simp add: update_values_def)

lemma country_id_update_values [simp]: "country_id (update_values d now c) = country_id c"
  by (simp add: update_values_def)

lemma find_SomeD: "find P xs = Some x \<Longrightarrow> P x \<and> x \<in> set xs"
  by (induction xs) (auto split: if_splits)

lemma find_NoneD: "find P xs = None \<Longrightarrow> x \<in> set xs \<Longrightarrow> \<not> P x"
  by (induction xs) (auto split: if_splits)

lemma find_map_update:
  assumes "find P xs = Some c0" and "\<And>x. P (u x)"
  shows "\<exists>x. find P (map (\<lambda>c. if k c = k c0 then u c else c) xs) = Some (u x) \<and> k x = k c0"
  using assms(1)
proof (induction xs)
  case Nil
  then show ?case by simp
next
  case (Cons x xs)
  show ?case
  proof (cases "k x = k c0")
    case True
    with assms(2) show ?thesis by auto
  next
    case False
    with Cons.prems have "\<not> P x" and "find P xs = Some c0" by (auto split: if_splits)
    with Cons.IH False show ?thesis by auto
  qed
qed

lemma find_append_new:
  "find P xs = None \<Longrightarrow> P y \<Longrightarrow> find P (xs @ [y]) = Some y"
  by (induction xs) (auto split: if_splits)

lemma sql_lower_upsert_country [simp]:
  "sql_lower (upsert_country now db d) = sql_lower db"
  by (simp add: upsert_country_def split: option.splits)

lemma sql_lower_update_app_status [simp]:
  "sql_lower (update_app_status db t) = sql_lower db"
  by (simp add: update_app_status_def split: option.splits)

text \<open>After an upsert the table holds a row with the payload just written and the time of
  the write, on every backend.\<close>

lemma row_after_upsert:
  "\<exists>row \<in> set (countries (upsert_country now db d)).
     payload_of row = d \<and> last_refreshed_at row = now"
proof (cases "get_country_by_name db (name d)")
  case None
  then show ?thesis
    by (simp add: upsert_country_def new_country_def payload_of_def)
next
  case (Some c0)
  then have "c0 \<in> set (countries db)"
    by (auto simp: get_country_by_name_def dest: find_SomeD)
  then have "update_values d now c0 \<in> set (countries (upsert_country now db d))"
    using Some by (auto simp: upsert_country_def image_iff intro!: bexI [of _ c0])
  moreover have "payload_of (update_values d now c0) = d \<and>
                 last_refreshed_at (update_values d now c0) = now"
    by (simp add: update_values_def payload_of_def)
  ultimately show ?thesis by blast
qed

text \<open>Where the backend's \<^verbatim>\<open>lower()\<close> agrees with Python's, the name is then found, with
  that payload and time.\<close>

lemma get_after_upsert:
  assumes agree: "sql_lower db = lower"
  shows "\<exists>row. get_country_by_name (upsert_country now db d) (name d) = Some row \<and>
           payload_of row = d \<and> last_refreshed_at row = now"
proof (cases "get_country_by_name db (name d)")
  case None
  then have "find (\<lambda>c. lower (name c) = lower (name d))
               (countries db @ [new_country (next_id db) now d]) = Some (new_country (next_id db) now d)"
    unfolding get_country_by_name_def agree
    by (intro find_append_new) (simp_all add: new_country_def)
  with None show ?thesis
    by (simp add: upsert_country_def get_country_by_name_def agree new_country_def payload_of_def)
next
  case (Some c0)
  then have f: "find (\<lambda>c. lower (name c) = lower (name d)) (countries db) = Some c0"
    by (simp add: get_country_by_name_def agree)
  from find_map_update [where u = "update_values d now" and k = country_id, OF f]
  obtain x where "find (\<lambda>c. lower (name c) = lower (name d))
       (map (\<lambda>c. if country_id c = country_id c0 then update_values d now c else c) (countries db))
     = Some (update_values d now x)"
    by auto
  with Some show ?thesis
    by (auto simp add: upsert_country_def get_country_by_name_def agree update_values_def
          payload_of_def)
qed

lemma same_key_same_row:
  "distinct (map k xs) \<Longrightarrow> x \<in> set xs \<Longrightarrow> y \<in> set xs \<Longrightarrow> k x = k y \<Longrightarrow> x = y"
  by (meson distinct_map inj_onD)

lemma upsert_country_update:
  assumes "get_country_by_name db (name d) = Some c0" and "primary_key db"
      and agree: "sql_lower db = lower"
  shows "map (\<lambda>c. lower (name c)) (countries (upsert_country now db d)) =
           map (\<lambda>c. lower (name c)) (countries db)"
    and "map country_id (countries (upsert_country now db d)) = map country_id (countries db)"
    and "next_id (upsert_country now db d) = next_id db"
proof -
  from assms(1) have c0: "lower (name c0) = lower (name d)" "c0 \<in> set (countries db)"
    by (auto simp: get_country_by_name_def agree dest: find_SomeD)
  from assms(2) have dist: "distinct (map country_id (countries db))"
    by (simp add: primary_key_def)
  have "lower (name (if country_id c = country_id c0 then update_values d now c else c)) = lower (name c)"
    if "c \<in> set (countries db)" for c
    using that c0 same_key_same_row [OF dist that c0(2)] by auto
  then show "map (\<lambda>c. lower (name c)) (countries (upsert_country now db d)) =
           map (\<lambda>c. lower (name c)) (countries db)"
    using assms(1) by (simp add: upsert_country_def)
  show "map country_id (countries (upsert_country now db d)) = map country_id (countries db)"
    using assms(1) by (simp add: upsert_country_def comp_def if_distrib [of country_id] cong: if_cong)
  show "next_id (upsert_country now db d) = next_id db"
    using assms(1) by (simp add: upsert_country_def)
qed

text \<open>Where the two functions agree, an upsert keeps the names unique.\<close>

lemma upsert_country_keeps:
  assumes "unique_names db" and "primary_key db" and agree: "sql_lower db = lower"
  shows "unique_names (upsert_country now db d) \<and> primary_key (upsert_country now db d)"
proof (cases "get_country_by_name db (name d)")
  case None
  then have "lower (name d) \<notin> (\<lambda>c. lower (name c)) ` set (countries db)"
    by (auto simp: get_country_by_name_def agree dest: find_NoneD)
  moreover have "next_id db \<notin> country_id ` set (countries db)"
    using assms(2) by (auto simp: primary_key_def list_all_iff)
  ultimately show ?thesis
    using assms None
    by (auto simp: upsert_country_def unique_names_def primary_key_def new_country_def list_all_iff)
next
  case (Some c0)
  from upsert_country_update [OF Some assms(2) agree, of now] assms
  show ?thesis
    by (simp add: unique_names_def primary_key_def)
qed

lemma delete_country_by_name_keeps:
  assumes "unique_names db" and "primary_key db"
  shows "unique_names (fst (delete_country_by_name db nm)) \<and>
         primary_key (fst (delete_country_by_name db nm))"
  using assms
  by (auto simp: delete_country_by_name_def unique_names_def primary_key_def
        distinct_map_filter list_all_iff split: option.splits)

lemma update_app_status_countries [simp]:
  "countries (update_app_status db t) = countries db"
  "next_id (update_app_status db t) = next_id db"
  by (simp_all add: update_app_status_def split: option.splits)

lemma update_app_status_keeps:
  "unique_names (update_app_status db t) = unique_names db"
  "primary_key (update_app_status db t) = primary_key db"
  by (simp_all add: unique_names_def primary_key_def)

lemma filter_key_singleton:
  "distinct (map k xs) \<Longrightarrow> x \<in> set xs \<Longrightarrow> filter (\<lambda>c. k c = k x) xs = [x]"
proof (induction xs)
  case Nil
  then show ?case by simp
next
  case (Cons y ys)
  show ?case
  proof (cases "y = x")
    case True
    with Cons.prems have "k x \<notin> k ` set ys" by auto
    then have "filter (\<lambda>c. k c = k x) ys = []"
      by (simp add: filter_empty_conv) (metis imageI)
    with True show ?thesis by simp
  next
    case False
    with Cons.prems have "x \<in> set ys" "k y \<noteq> k x" by auto
    with Cons show ?thesis by simp
  qed
qed

lemma get_country_by_name_lower:
  "lower a = lower b \<Longrightarrow> get_country_by_name db a = get_country_by_name db b"
  by (simp add: get_country_by_name_def)

lemma upsert_twice:
  assumes inv: "unique_names db" "primary_key db"
      and agree: "sql_lower db = lower"
      and same: "lower (name d1) = lower (name d2)"
  shows "\<exists>row1. get_country_by_name (upsert_country t1 db d1) (name d1) = Some row1 \<and>
           payload_of row1 = d1 \<and>
           rows_named (upsert_country t2 (upsert_country t1 db d1) d2) (name d1) =
             [new_country (country_id row1) t2 d2]"
proof -
  let ?db1 = "upsert_country t1 db d1"
  let ?db2 = "upsert_country t2 ?db1 d2"
  have agree1: "sql_lower ?db1 = lower" using agree by simp
  from get_after_upsert [OF agree, of t1 d1] obtain row1 where
    row1: "get_country_by_name ?db1 (name d1) = Some row1" "payload_of row1 = d1"
    by blast
  then have row1': "get_country_by_name ?db1 (name d2) = Some row1"
    using get_country_by_name_lower [OF same] by simp
  from upsert_country_keeps [OF inv agree] have inv1: "unique_names ?db1" "primary_key ?db1"
    by simp_all
  from upsert_country_keeps [OF inv1 agree1] have inv2: "unique_names ?db2" by simp
  from row1' have in1: "row1 \<in> set (countries ?db1)"
    by (auto simp: get_country_by_name_def dest: find_SomeD)
  have rows2: "countries ?db2 =
      map (\<lambda>c. if country_id c = country_id row1 then update_values d2 t2 c else c) (countries ?db1)"
    using row1' by (simp add: upsert_country_def [of t2])
  let ?new = "update_values d2 t2 row1"
  from in1 rows2 have in2: "?new \<in> set (countries ?db2)"
    by (auto simp: image_iff intro!: bexI [of _ row1])
  from inv2 have "distinct (map (\<lambda>c. lower (name c)) (countries ?db2))"
    by (simp add: unique_names_def)
  from filter_key_singleton [OF this in2]
  have "filter (\<lambda>c. lower (name c) = lower (name d2)) (countries ?db2) = [?new]" by simp
  then have "rows_named ?db2 (name d1) = [new_country (country_id row1) t2 d2]"
    using same by (simp add: rows_named_def update_values_eq_new_country)
  with row1 show ?thesis by blast
qed

section \<open>One raw record\<close>

lemmas refresh_defs =
  refresh_countries_data_def process_and_cache_countries_def gather_def fetch_exchange_rates_def
  fetch_countries_data_def raise_for_status_def process_country_def estimate_def
  extract_currency_code_def dict_get_def country_payload_def upsert_country_def
  get_country_by_name_def new_country_def update_app_status_def get_app_status_def
  generate_summary_image_def randint_def

lemmas sample_defs =
  sample_env_def sample_session_def empty_database_def wakanda_def freedonia_def nameless_def
  atlantis_def usd_rates_def

lemma randint_range: "a \<le> b \<Longrightarrow> a \<le> fst (randint a b g) \<and> fst (randint a b g) \<le> b"
proof -
  assume ab: "a \<le> b"
  then have pos: "0 < nat (b - a + 1)" by simp
  have "g 0 mod nat (b - a + 1) < nat (b - a + 1)" using pos by simp
  then have "int (g 0 mod nat (b - a + 1)) \<le> b - a" using ab by linarith
  then show ?thesis by (simp add: randint_def)
qed

lemma estimate_table:
  "fst (estimate rates pop code_opt g) =
     decision_table rates pop code_opt (fst (randint 1000 2000 g))"
  by (auto simp: estimate_def decision_table_def split_beta split: option.splits)

text \<open>A record that is not skipped and passes validation makes one upsert, under its
  name and with the estimate, at the next reading of the database clock.\<close>

lemma process_country_write:
  assumes "raw_name r = Some nm" "nm \<noteq> []" "raw_population r = Some pop"
      and "process_country h rates s r = Inr s'"
  shows "\<exists>payload. name payload = nm \<and>
           (currency_code payload, exchange_rate payload, estimated_gdp payload) =
             fst (estimate rates pop (extract_currency_code (raw_currencies r)) (session_rng s)) \<and>
           session_db s' = upsert_country (session_clock s 0) (session_db s) payload \<and>
           session_clock s' = (\<lambda>n. session_clock s (Suc n))"
proof -
  let ?est = "fst (estimate rates pop (extract_currency_code (raw_currencies r)) (session_rng s))"
  from assms obtain payload where
    p: "country_payload h nm pop r ?est = Inr payload" and
    s': "session_db s' = upsert_country (session_clock s 0) (session_db s) payload"
        "session_clock s' = (\<lambda>n. session_clock s (Suc n))"
    by (auto simp: process_country_def split_beta split: sum.splits)
  from p have "name payload = nm"
    "(currency_code payload, exchange_rate payload, estimated_gdp payload) = ?est"
    by (auto simp: country_payload_def Let_def split: option.splits)
  with s' show ?thesis by blast
qed

lemma payload_of_fields:
  "payload_of row = payload \<Longrightarrow>
   name row = name payload \<and> currency_code row = currency_code payload \<and>
   exchange_rate row = exchange_rate payload \<and> estimated_gdp row = estimated_gdp payload"
  by (auto simp: payload_of_def)

text \<open>So the table then holds a row of that name with the estimate and that reading, on
  every backend.\<close>

lemma process_country_row:
  assumes "raw_name r = Some nm" "nm \<noteq> []" "raw_population r = Some pop"
      and "process_country h rates s r = Inr s'"
  shows "\<exists>row \<in> set (countries (session_db s')). name row = nm \<and>
           (currency_code row, exchange_rate row, estimated_gdp row) =
             fst (estimate rates pop (extract_currency_code (raw_currencies r)) (session_rng s)) \<and>
           last_refreshed_at row = session_clock s 0"
proof -
  from process_country_write [OF assms] obtain payload where
    p: "name payload = nm"
       "(currency_code payload, exchange_rate payload, estimated_gdp payload) =
          fst (estimate rates pop (extract_currency_code (raw_currencies r)) (session_rng s))"
       "session_db s' = upsert_country (session_clock s 0) (session_db s) payload"
    by blast
  from row_after_upsert [of "session_clock s 0" "session_db s" payload] p(3)
  obtain row where row: "row \<in> set (countries (session_db s'))"
    "payload_of row = payload" "last_refreshed_at row = session_clock s 0"
    by auto
  from payload_of_fields [OF row(2)] p(1,2) row(3)
  have "name row = nm \<and>
           (currency_code row, exchange_rate row, estimated_gdp row) =
             fst (estimate rates pop (extract_currency_code (raw_currencies r)) (session_rng s)) \<and>
           last_refreshed_at row = session_clock s 0"
    by simp
  with row(1) show ?thesis by blast
qed

text \<open>Where the backend's \<^verbatim>\<open>lower()\<close> agrees with Python's, that row is the one found under
  the name.\<close>

lemma process_country_row_found:
  assumes "raw_name r = Some nm" "nm \<noteq> []" "raw_population r = Some pop"
      and "process_country h rates s r = Inr s'"
      and agree: "sql_lower (session_db s) = lower"
  shows "\<exists>row. get_country_by_name (session_db s') nm = Some row \<and>
           (currency_code row, exchange_rate row, estimated_gdp row) =
             fst (estimate rates pop (extract_currency_code (raw_currencies r)) (session_rng s)) \<and>
           last_refreshed_at row = session_clock s 0"
proof -
  from process_country_write [OF assms(1-4)] obtain payload where
    p: "name payload = nm"
       "(currency_code payload, exchange_rate payload, estimated_gdp payload) =
          fst (estimate rates pop (extract_currency_code (raw_currencies r)) (session_rng s))"
       "session_db s' = upsert_country (session_clock s 0) (session_db s) payload"
    by blast
  from get_after_upsert [OF agree, of "session_clock s 0" payload] p(1,3)
  obtain row where row: "get_country_by_name (session_db s') nm = Some row"
    "payload_of row = payload" "last_refreshed_at row = session_clock s 0"
    by auto
  from payload_of_fields [OF row(2)] p(2) row(3)
  have "(currency_code row, exchange_rate row, estimated_gdp row) =
             fst (estimate rates pop (extract_currency_code (raw_currencies r)) (session_rng s)) \<and>
           last_refreshed_at row = session_clock s 0"
    by simp
  with row(1) show ?thesis by blast
qed

text \<open>
  Claim C3: for a raw record with a name and a population, the estimation gives the
  triple of the decision table, applied to the currency code taken from the record and
  to the rate table, for some multiplier \<open>m\<close> between 1000 and 2000; and when the
  record passes validation, the table holds a row of its name that carries that triple,
  which is the row found under the name where the backend's \<^verbatim>\<open>lower()\<close> agrees with
  Python's.
\<close>

theorem gdp_estimation_decision_table:
  assumes "raw_name r = Some nm" "nm \<noteq> []" "raw_population r = Some pop"
  shows "\<exists>m. 1000 \<le> m \<and> m \<le> 2000 \<and>
      fst (estimate rates pop (extract_currency_code (raw_currencies r)) (session_rng s)) =
        decision_table rates pop (extract_currency_code (raw_currencies r)) m \<and>
      (\<forall>s'. process_country h rates s r = Inr s' \<longrightarrow>
         (\<exists>row \<in> set (countries (session_db s')). name row = nm \<and>
            (currency_code row, exchange_rate row, estimated_gdp row) =
              decision_table rates pop (extract_currency_code (raw_currencies r)) m) \<and>
         (sql_lower (session_db s) = lower \<longrightarrow>
            (\<exists>row. get_country_by_name (session_db s') nm = Some row \<and>
               (currency_code row, exchange_rate row, estimated_gdp row) =
                 decision_table rates pop (extract_currency_code (raw_currencies r)) m)))"
proof -
  let ?m = "fst (randint 1000 2000 (session_rng s))"
  let ?code = "extract_currency_code (raw_currencies r)"
  have m: "1000 \<le> ?m" "?m \<le> 2000" using randint_range [of 1000 2000] by simp_all
  have est: "fst (estimate rates pop ?code (session_rng s)) = decision_table rates pop ?code ?m"
    by (rule estimate_table)
  have held: "\<exists>row \<in> set (countries (session_db s')). name row = nm \<and>
            (currency_code row, exchange_rate row, estimated_gdp row) =
              decision_table rates pop ?code ?m"
    if "process_country h rates s r = Inr s'" for s'
    using process_country_row [OF assms that] by (simp only: est) blast
  have found: "\<exists>row. get_country_by_name (session_db s') nm = Some row \<and>
            (currency_code row, exchange_rate row, estimated_gdp row) =
              decision_table rates pop ?code ?m"
    if "process_country h rates s r = Inr s'" "sql_lower (session_db s) = lower" for s'
    using process_country_row_found [OF assms that] by (simp only: est) blast
  from m est held found show ?thesis by blast
qed

theorem gdp_estimation_decision_table_witness:
  "raw_name freedonia = Some ''Freedonia'' \<and> raw_population freedonia = Some 1000 \<and>
   (\<exists>s' row m. process_country Some usd_rates sample_session freedonia = Inr s' \<and>
      get_country_by_name (session_db s') ''Freedonia'' = Some row \<and> 1000 \<le> m \<and> m \<le> 2000 \<and>
      (currency_code row, exchange_rate row, estimated_gdp row) =
        (Some ''USD'', Some 2, Some (1000 * real_of_int m / 2)))"
proof -
  have n: "raw_name freedonia = Some ''Freedonia''" and ne: "''Freedonia'' \<noteq> []"
    and p: "raw_population freedonia = Some 1000"
    by (simp_all add: freedonia_def)
  obtain s' where run: "process_country Some usd_rates sample_session freedonia = Inr s'"
    by (simp add: refresh_defs sample_defs)
  have table: "decision_table usd_rates 1000 (extract_currency_code (raw_currencies freedonia)) m =
          (Some ''USD'', Some 2, Some (1000 * real_of_int m / 2))" for m
    by (simp add: decision_table_def extract_currency_code_def dict_get_def freedonia_def usd_rates_def)
  have agree: "sql_lower (session_db sample_session) = lower"
    by (simp add: sample_session_def empty_database_def)
  from gdp_estimation_decision_table [OF n ne p, of usd_rates sample_session Some]
  obtain m where m: "1000 \<le> m" "m \<le> 2000" and
    rows: "\<forall>s'. process_country Some usd_rates sample_session freedonia = Inr s' \<longrightarrow>
         sql_lower (session_db sample_session) = lower \<longrightarrow>
         (\<exists>row. get_country_by_name (session_db s') ''Freedonia'' = Some row \<and>
            (currency_code row, exchange_rate row, estimated_gdp row) =
              decision_table usd_rates 1000 (extract_currency_code (raw_currencies freedonia)) m)"
    by blast
  from rows run agree obtain row where
    "get_country_by_name (session_db s') ''Freedonia'' = Some row"
    "(currency_code row, exchange_rate row, estimated_gdp row) =
       (Some ''USD'', Some 2, Some (1000 * real_of_int m / 2))"
    unfolding table by blast
  with m run have "\<exists>s' row m. process_country Some usd_rates sample_session freedonia = Inr s' \<and>
      get_country_by_name (session_db s') ''Freedonia'' = Some row \<and> 1000 \<le> m \<and> m \<le> 2000 \<and>
      (currency_code row, exchange_rate row, estimated_gdp row) =
        (Some ''USD'', Some 2, Some (1000 * real_of_int m / 2))"
    by blast
  with n p show ?thesis by (intro conjI)
qed

lemma extract_no_code:
  assumes "first = NotDict \<or> (\<exists>kv. first = Dict kv \<and> ''code'' \<notin> fst ` set kv)"
  shows "extract_currency_code (PyList (first # later)) = None"
proof -
  have "map_of kv ''code'' = None" if "''code'' \<notin> fst ` set kv"
    for kv :: "(string \<times> string option) list"
    using that by (simp add: map_of_eq_None_iff)
  with assms show ?thesis
    by (auto simp: extract_currency_code_def dict_get_def)
qed

lemma process_country_cong:
  "extract_currency_code (raw_currencies r) = extract_currency_code c \<Longrightarrow>
   process_country h rates s r = process_country h rates s (r\<lparr>raw_currencies := c\<rparr>)"
  by (simp add: process_country_def country_payload_def Let_def split_beta
        split: option.splits sum.splits)

text \<open>
  Claim C10: a raw record whose \<^verbatim>\<open>currencies\<close> is a non-empty list with a first entry that
  is not a dict, or is a dict with no key \<^verbatim>\<open>"code"\<close>, is processed exactly as the same
  record with an empty currency list, whatever the later entries; the row of its name
  that it leaves in the table has no currency code, no exchange rate and the estimate 0,
  and it is the row found under the name where the backend's \<^verbatim>\<open>lower()\<close> agrees with
  Python's.
\<close>

theorem first_currency_without_code:
  assumes "raw_name r = Some nm" "nm \<noteq> []" "raw_population r = Some pop"
      and "raw_currencies r = PyList (first # later)"
      and "first = NotDict \<or> (\<exists>kv. first = Dict kv \<and> ''code'' \<notin> fst ` set kv)"
  shows "process_country h rates s r = process_country h rates s (r\<lparr>raw_currencies := PyList []\<rparr>) \<and>
         (\<forall>s'. process_country h rates s r = Inr s' \<longrightarrow>
            (\<exists>row \<in> set (countries (session_db s')). name row = nm \<and>
               currency_code row = None \<and> exchange_rate row = None \<and> estimated_gdp row = Some 0) \<and>
            (sql_lower (session_db s) = lower \<longrightarrow>
               (\<exists>row. get_country_by_name (session_db s') nm = Some row \<and>
                  currency_code row = None \<and> exchange_rate row = None \<and>
                  estimated_gdp row = Some 0)))"
proof -
  have none: "extract_currency_code (raw_currencies r) = None"
    using assms(4,5) extract_no_code by simp
  then have same: "process_country h rates s r =
      process_country h rates s (r\<lparr>raw_currencies := PyList []\<rparr>)"
    by (intro process_country_cong) (simp add: extract_currency_code_def)
  have held: "\<exists>row \<in> set (countries (session_db s')). name row = nm \<and>
           currency_code row = None \<and> exchange_rate row = None \<and> estimated_gdp row = Some 0"
    if "process_country h rates s r = Inr s'" for s'
    using process_country_row [OF assms(1-3) that] none by (auto simp: estimate_def)
  have found: "\<exists>row. get_country_by_name (session_db s') nm = Some row \<and>
           currency_code row = None \<and> exchange_rate row = None \<and> estimated_gdp row = Some 0"
    if "process_country h rates s r = Inr s'" "sql_lower (session_db s) = lower" for s'
    using process_country_row_found [OF assms(1-3) that] none by (auto simp: estimate_def)
  from same held found show ?thesis by blast
qed

theorem first_currency_without_code_witness:
  "raw_name atlantis = Some ''Atlantis'' \<and> raw_population atlantis = Some 7 \<and>
   raw_currencies atlantis = PyList [NotDict, Dict [(''code'', Some ''USD'')]] \<and>
   process_country Some usd_rates sample_session atlantis =
     process_country Some usd_rates sample_session (atlantis\<lparr>raw_currencies := PyList []\<rparr>) \<and>
   (\<exists>s' row. process_country Some usd_rates sample_session atlantis = Inr s' \<and>
      get_country_by_name (session_db s') ''Atlantis'' = Some row \<and>
      currency_code row = None \<and> exchange_rate row = None \<and> estimated_gdp row = Some 0)"
proof -
  have n: "raw_name atlantis = Some ''Atlantis''" and ne: "''Atlantis'' \<noteq> []"
    and p: "raw_population atlantis = Some 7"
    and c: "raw_currencies atlantis = PyList (NotDict # [Dict [(''code'', Some ''USD'')]])"
    by (simp_all add: atlantis_def)
  have f: "NotDict = NotDict \<or> (\<exists>kv. NotDict = Dict kv \<and> ''code'' \<notin> fst ` set kv)" by simp
  obtain s' where run: "process_country Some usd_rates sample_session atlantis = Inr s'"
    by (simp add: refresh_defs sample_defs)
  have agree: "sql_lower (session_db sample_session) = lower"
    by (simp add: sample_session_def empty_database_def)
  from first_currency_without_code [OF n ne p c f, of Some usd_rates sample_session] have
    eq: "process_country Some usd_rates sample_session atlantis =
           process_country Some usd_rates sample_session (atlantis\<lparr>raw_currencies := PyList []\<rparr>)" and
    rows: "\<forall>s'. process_country Some usd_rates sample_session atlantis = Inr s' \<longrightarrow>
           sql_lower (session_db sample_session) = lower \<longrightarrow>
           (\<exists>row. get_country_by_name (session_db s') ''Atlantis'' = Some row \<and>
              currency_code row = None \<and> exchange_rate row = None \<and> estimated_gdp row = Some 0)"
    by blast+
  from rows run agree have "\<exists>s' row. process_country Some usd_rates sample_session atlantis = Inr s' \<and>
      get_country_by_name (session_db s') ''Atlantis'' = Some row \<and>
      currency_code row = None \<and> exchange_rate row = None \<and> estimated_gdp row = Some 0"
    by blast
  with n p c eq show ?thesis by (intro conjI)
qed

section \<open>The loop over the raw records\<close>

lemma process_countries_append:
  "process_countries h rates s (xs @ ys) =
     (case process_countries h rates s xs of
        Inl ex \<Rightarrow> Inl ex
      | Inr s' \<Rightarrow> process_countries h rates s' ys)"
  by (induction xs arbitrary: s) (auto split: sum.splits)

lemma process_country_skip:
  "\<not> truthy (raw_name r) \<or> raw_population r = None \<Longrightarrow> process_country h rates s r = Inr s"
  by (cases "raw_name r"; cases "raw_population r") (auto simp: process_country_def)

lemma process_countries_skip:
  assumes "\<not> truthy (raw_name r) \<or> raw_population r = None"
  shows "process_countries h rates s (before @ r # after) = process_countries h rates s (before @ after)"
  by (simp add: process_countries_append process_country_skip [OF assms] split: sum.splits)

lemma generate_summary_image_countries_http:
  "generate_summary_image (e\<lparr>countries_http := x\<rparr>) = generate_summary_image e"
  by (rule ext) (simp add: generate_summary_image_def)

text \<open>
  Claim C7: a raw record whose name is missing or empty, or whose population is missing,
  leaves the session as it is (no upsert), and a refresh whose country list holds such a
  record anywhere ends exactly as the refresh without it: same outcome, same store.
\<close>

theorem record_without_name_or_population_dropped:
  assumes "\<not> truthy (raw_name r) \<or> raw_population r = None"
  shows "process_country h rates s r = Inr s \<and>
         process_and_cache_countries (e\<lparr>countries_http := Response code (before @ r # after)\<rparr>) db =
         process_and_cache_countries (e\<lparr>countries_http := Response code (before @ after)\<rparr>) db"
proof
  show "process_country h rates s r = Inr s" by (rule process_country_skip [OF assms])
  show "process_and_cache_countries (e\<lparr>countries_http := Response code (before @ r # after)\<rparr>) db =
         process_and_cache_countries (e\<lparr>countries_http := Response code (before @ after)\<rparr>) db"
    by (cases "fetch_exchange_rates (rates_http e)"; cases "raise_for_status code")
       (simp_all add: process_and_cache_countries_def fetch_countries_data_def gather_def
          generate_summary_image_countries_http process_countries_skip [OF assms] Let_def
          split: sum.splits)
qed

theorem record_without_name_or_population_dropped_witness:
  "raw_name nameless = None \<and>
   process_country Some usd_rates sample_session nameless = Inr sample_session \<and>
   process_and_cache_countries
     (sample_env\<lparr>countries_http := Response 200 ([wakanda] @ nameless # [freedonia])\<rparr>)
     empty_database =
   process_and_cache_countries
     (sample_env\<lparr>countries_http := Response 200 ([wakanda] @ [freedonia])\<rparr>) empty_database"
proof -
  have n: "raw_name nameless = None" by (simp add: nameless_def)
  then have h: "\<not> truthy (raw_name nameless) \<or> raw_population nameless = None" by simp
  from record_without_name_or_population_dropped
         [OF h, where h = Some and rates = usd_rates and s = sample_session and e = sample_env
            and code = 200 and before = "[wakanda]" and after = "[freedonia]"
            and db = empty_database]
    n
  show ?thesis by (intro conjI) simp_all
qed

lemma process_country_cases:
  assumes "process_country h rates s r = Inr s'"
  shows "s' = s \<or> (\<exists>payload. session_db s' = upsert_country (session_clock s 0) (session_db s) payload
                     \<and> session_clock s' = (\<lambda>n. session_clock s (Suc n)))"
  using assms
  by (auto simp: process_country_def split_beta split: option.splits if_splits sum.splits)

lemma process_countries_sql_lower:
  "process_countries h rates s raws = Inr s' \<Longrightarrow>
   sql_lower (session_db s') = sql_lower (session_db s)"
proof (induction raws arbitrary: s)
  case Nil
  then show ?case by simp
next
  case (Cons r raws)
  from Cons.prems obtain s1 where
    s1: "process_country h rates s r = Inr s1" and rest: "process_countries h rates s1 raws = Inr s'"
    by (auto split: sum.splits)
  from process_country_cases [OF s1] have "sql_lower (session_db s1) = sql_lower (session_db s)"
    by auto
  with Cons.IH [OF rest] show ?case by simp
qed

lemma process_countries_keeps:
  "process_countries h rates s raws = Inr s' \<Longrightarrow>
   unique_names (session_db s) \<Longrightarrow> primary_key (session_db s) \<Longrightarrow>
   sql_lower (session_db s) = lower \<Longrightarrow>
   unique_names (session_db s') \<and> primary_key (session_db s')"
proof (induction raws arbitrary: s)
  case Nil
  then show ?case by simp
next
  case (Cons r raws)
  from Cons.prems(1) obtain s1 where
    s1: "process_country h rates s r = Inr s1" and rest: "process_countries h rates s1 raws = Inr s'"
    by (auto split: sum.splits)
  from process_country_cases [OF s1] Cons.prems(2,3,4)
  have "unique_names (session_db s1) \<and> primary_key (session_db s1) \<and>
        sql_lower (session_db s1) = lower"
    by (auto simp: upsert_country_keeps)
  with Cons.IH [OF rest] show ?case by simp
qed




section \<open>The refresh cycle\<close>

lemma process_and_cache_countries_cases:
  "snd (process_and_cache_countries e db) = db \<or>
   (\<exists>rates raws s. process_countries (http_url_parser e) rates
        \<lparr>session_db = db, session_rng = entropy e, session_clock = db_now e\<rparr> raws = Inr s \<and>
      snd (process_and_cache_countries e db) = update_app_status (session_db s) (utc_now e))"
  by (auto simp: process_and_cache_countries_def Let_def split: sum.splits prod.splits)

lemma process_and_cache_countries_keeps:
  assumes "unique_names db" and "primary_key db" and "sql_lower db = lower"
  shows "unique_names (snd (process_and_cache_countries e db)) \<and>
         primary_key (snd (process_and_cache_countries e db))"
  using process_and_cache_countries_cases [of e db] assms
  by (auto simp: update_app_status_keeps dest!: process_countries_keeps)

text \<open>
  Where the backend's \<^verbatim>\<open>lower()\<close> agrees with Python's, the operations of the store keep
  the invariant that no two rows bear the same name up to case (together with what the
  primary key gives), and two upserts under names equal up to case leave exactly one row
  for that name: it has the fields of the second payload and the key of the row that the
  first upsert left.
\<close>

lemma one_row_per_name_where_lower_agrees:
  assumes "unique_names db" and "primary_key db" and "sql_lower db = lower"
  shows "unique_names (upsert_country now db d) \<and> primary_key (upsert_country now db d) \<and>
         unique_names (fst (delete_country_by_name db nm)) \<and>
         primary_key (fst (delete_country_by_name db nm)) \<and>
         unique_names (update_app_status db t) \<and> primary_key (update_app_status db t) \<and>
         unique_names (snd (process_and_cache_countries e db)) \<and>
         primary_key (snd (process_and_cache_countries e db)) \<and>
         (lower (name d1) = lower (name d2) \<longrightarrow>
            (\<exists>row1. get_country_by_name (upsert_country t1 db d1) (name d1) = Some row1 \<and>
               payload_of row1 = d1 \<and>
               rows_named (upsert_country t2 (upsert_country t1 db d1) d2) (name d1) =
                 [new_country (country_id row1) t2 d2]))"
  using upsert_country_keeps [OF assms, of now d]
    delete_country_by_name_keeps [OF assms(1,2), of nm]
    process_and_cache_countries_keeps [OF assms, of e] upsert_twice [OF assms, of d1 d2 t1 t2]
    assms
  by (simp add: update_app_status_keeps)

text \<open>On such a backend the two payloads for Nigeria, named in two cases, leave one row: it
  has the second payload and the key 1 that the first upsert gave.\<close>

lemma nigeria_upserted_twice:
  "rows_named (upsert_country 2 (upsert_country 1 empty_database nigeria_first) nigeria_second)
     ''Nigeria'' = [new_country 1 2 nigeria_second]"
proof -
  have u: "unique_names empty_database" and p: "primary_key empty_database"
    and a: "sql_lower empty_database = lower"
    by (simp_all add: unique_names_def primary_key_def empty_database_def)
  have same: "lower (name nigeria_first) = lower (name nigeria_second)"
    by (simp add: nigeria_first_def nigeria_second_def lower_samples)
  have nm: "name nigeria_first = ''Nigeria''" by (simp add: nigeria_first_def)
  have first: "get_country_by_name (upsert_country 1 empty_database nigeria_first) (name nigeria_first)
     = Some (new_country 1 1 nigeria_first)"
    by (simp add: upsert_country_def get_country_by_name_def empty_database_def new_country_def)
  from upsert_twice [OF u p a same, of 1 2]
  obtain row1 where
    found: "get_country_by_name (upsert_country 1 empty_database nigeria_first) (name nigeria_first)
              = Some row1" and
    rows: "rows_named (upsert_country 2 (upsert_country 1 empty_database nigeria_first) nigeria_second)
             (name nigeria_first) = [new_country (country_id row1) 2 nigeria_second]"
    by blast
  from found first have "row1 = new_country 1 1 nigeria_first" by simp
  then have "country_id row1 = 1" by (simp add: new_country_def)
  with rows show ?thesis by (simp only: nm)
qed

text \<open>
  Claim C4, where the code departs from it: the lookup of \<^verbatim>\<open>upsert_country\<close> is meant to
  be case-insensitive (its comment says so), but it lower-cases the column in the
  database and the argument in Python. On a backend whose \<^verbatim>\<open>lower()\<close> knows ASCII only,
  the stored name of the Aland Islands is never found again: the second upsert under
  the very same name inserts a second row with a new key, so the store holds two rows
  for one name and the first row keeps the first payload.
\<close>

theorem aland_upserted_twice_leaves_two_rows:
  "get_country_by_name (upsert_country 1 empty_sqlite aland_first) aland_islands = None \<and>
   map payload_of (countries (upsert_country 2 (upsert_country 1 empty_sqlite aland_first) aland_second))
     = [aland_first, aland_second] \<and>
   map country_id (countries (upsert_country 2 (upsert_country 1 empty_sqlite aland_first) aland_second))
     = [1, 2] \<and>
   length (rows_named (upsert_country 2 (upsert_country 1 empty_sqlite aland_first) aland_second)
             aland_islands) = 2 \<and>
   \<not> unique_names (upsert_country 2 (upsert_country 1 empty_sqlite aland_first) aland_second)"
proof -
  let ?db1 = "\<lparr>countries = [new_country 1 1 aland_first], next_id = 2, app_status = None,
               sql_lower = ascii_lower\<rparr>"
  let ?db2 = "\<lparr>countries = [new_country 1 1 aland_first, new_country 2 2 aland_second],
               next_id = 3, app_status = None, sql_lower = ascii_lower\<rparr>"
  have nm: "name aland_first = aland_islands" "name aland_second = aland_islands"
    by (simp_all add: aland_first_def aland_second_def)
  have first: "upsert_country 1 empty_sqlite aland_first = ?db1"
    by (simp add: upsert_country_def get_country_by_name_def empty_sqlite_def)
  have lost: "get_country_by_name ?db1 aland_islands = None"
    by (simp add: get_country_by_name_def new_country_def nm aland_not_found)
  have second: "upsert_country 2 ?db1 aland_second = ?db2"
    using lost by (simp add: upsert_country_def nm)
  have payloads: "map payload_of (countries ?db2) = [aland_first, aland_second]"
    by simp
  have keys: "map country_id (countries ?db2) = [1, 2]"
    by (simp add: new_country_def)
  have two: "length (rows_named ?db2 aland_islands) = 2"
    by (simp add: rows_named_def new_country_def nm)
  have twice: "\<not> unique_names ?db2"
    by (simp add: unique_names_def new_country_def nm)
  from lost payloads keys two twice show ?thesis
    unfolding first second by (intro conjI)
qed

text \<open>A failed fetch ends the cycle before any write, whatever the exception is.\<close>

lemma fetch_failure_no_write:
  "gather (rates_fail_first e) (fetch_exchange_rates (rates_http e))
      (fetch_countries_data (countries_http e)) = Inl ex \<Longrightarrow>
   refresh_countries_data e db = (exception_handler ex, db)"
  by (simp add: refresh_countries_data_def process_and_cache_countries_def)

text \<open>A transport failure or timeout of the exchange-rate call is answered with 503.\<close>

lemma request_error_503:
  assumes "rates_http e = RequestError details"
      and "rates_fail_first e \<or> fetch_countries_data (countries_http e) = Inr raws"
  shows "refresh_countries_data e db =
           (service_unavailable_handler ''Exchange Rates API'', db)"
proof -
  have "gather (rates_fail_first e) (fetch_exchange_rates (rates_http e))
          (fetch_countries_data (countries_http e)) =
        Inl (ServiceUnavailableException ''Exchange Rates API'' details)"
    using assms by (auto simp: gather_def fetch_exchange_rates_def split: sum.splits)
  from fetch_failure_no_write [OF this] show ?thesis by simp
qed

text \<open>
  Claim C2, where the code departs from it: when the exchange-rate source answers with
  status 500, \<^verbatim>\<open>raise_for_status\<close> raises an \<^verbatim>\<open>HTTPStatusError\<close>, which the
  \<^verbatim>\<open>except\<close> clause of the fetch does not catch. The cycle ends with no write, but the
  caller gets the generic 500 response, not 503.
\<close>

theorem bad_status_is_not_503:
  "refresh_countries_data (sample_env\<lparr>rates_http := Response 500 None\<rparr>) db =
     (\<lparr>status_code = 500, content = ErrorContent ''Internal server error'' None\<rparr>, db)"
proof -
  have "gather (rates_fail_first (sample_env\<lparr>rates_http := Response 500 None\<rparr>))
          (fetch_exchange_rates (rates_http (sample_env\<lparr>rates_http := Response 500 None\<rparr>)))
          (fetch_countries_data (countries_http (sample_env\<lparr>rates_http := Response 500 None\<rparr>)))
        = Inl (HTTPStatusError 500)"
    by (simp add: gather_def fetch_exchange_rates_def fetch_countries_data_def raise_for_status_def
          sample_env_def)
  from fetch_failure_no_write [OF this] show ?thesis
    by (simp add: generic_exception_handler_def)
qed

text \<open>The sample refresh, run: Wakanda gets a row with no currency and the estimate 0.\<close>

lemma sample_refresh:
  "process_and_cache_countries sample_env empty_database =
     (Inr \<lparr>status = ''success'', refreshed_at = 100\<rparr>,
      \<lparr>countries =
         [\<lparr>name = ''Wakanda'', capital = None, region = None, population = 1000000,
           currency_code = None, exchange_rate = None, estimated_gdp = Some 0, flag_url = None,
           country_id = 1, last_refreshed_at = 101\<rparr>],
       next_id = 2,
       app_status = Some \<lparr>status_id = 1, status_last_refreshed_at = Some 100\<rparr>,
       sql_lower = lower\<rparr>)"
  by (simp add: refresh_defs sample_defs)

lemma sample_refresh_image_failure:
  "process_and_cache_countries (sample_env\<lparr>image_save := False\<rparr>) empty_database =
     (Inl RenderError,
      \<lparr>countries =
         [\<lparr>name = ''Wakanda'', capital = None, region = None, population = 1000000,
           currency_code = None, exchange_rate = None, estimated_gdp = Some 0, flag_url = None,
           country_id = 1, last_refreshed_at = 101\<rparr>],
       next_id = 2,
       app_status = Some \<lparr>status_id = 1, status_last_refreshed_at = Some 100\<rparr>,
       sql_lower = lower\<rparr>)"
  by (simp add: refresh_defs sample_defs)






lemma refresh_image_save_cases:
  "(\<exists>ex. refresh_countries_data (e\<lparr>image_save := True\<rparr>) db = (exception_handler ex, db) \<and>
         refresh_countries_data (e\<lparr>image_save := False\<rparr>) db = (exception_handler ex, db)) \<or>
   (\<exists>committed.
         refresh_countries_data (e\<lparr>image_save := True\<rparr>) db =
           (\<lparr>status_code = 200,
             content = RefreshContent \<lparr>status = ''success'', refreshed_at = utc_now e\<rparr>\<rparr>, committed) \<and>
         refresh_countries_data (e\<lparr>image_save := False\<rparr>) db =
           (generic_exception_handler, committed))"
  by (auto simp: refresh_countries_data_def process_and_cache_countries_def Let_def
        generate_summary_image_def split: sum.splits prod.splits)

lemma status_code_exception_handler: "status_code (exception_handler ex) \<noteq> 200"
  by (cases ex) (simp_all add: service_unavailable_handler_def generic_exception_handler_def)

text \<open>
  Claim C6, as it holds: take a refresh that is answered 200 when the image is rendered,
  leaving the store \<open>committed\<close>. The same refresh with a rendering that fails leaves the
  same store (nothing is rolled back), and is answered with the generic 500 response,
  not with the success.
\<close>

theorem image_failure_after_commit:
  assumes "refresh_countries_data (e\<lparr>image_save := True\<rparr>) db = (ok, committed)"
      and "status_code ok = 200"
  shows "refresh_countries_data (e\<lparr>image_save := False\<rparr>) db =
           (generic_exception_handler, committed)"
  using refresh_image_save_cases [of e db] assms status_code_exception_handler
  by auto

theorem image_failure_after_commit_witness:
  "status_code (fst (refresh_countries_data (sample_env\<lparr>image_save := True\<rparr>) empty_database)) = 200 \<and>
   refresh_countries_data (sample_env\<lparr>image_save := False\<rparr>) empty_database =
     (\<lparr>status_code = 500, content = ErrorContent ''Internal server error'' None\<rparr>,
      snd (refresh_countries_data (sample_env\<lparr>image_save := True\<rparr>) empty_database))"
proof -
  have same: "sample_env\<lparr>image_save := True\<rparr> = sample_env" by (simp add: sample_env_def)
  have ok: "status_code (fst (refresh_countries_data (sample_env\<lparr>image_save := True\<rparr>) empty_database)) = 200"
    unfolding same by (simp add: refresh_countries_data_def sample_refresh)
  from image_failure_after_commit [OF prod.collapse [symmetric] ok] ok
  show ?thesis by (simp add: generic_exception_handler_def)
qed

text \<open>
  The sample refresh with a rendering that fails: the row of Wakanda is committed, and
  the caller is told of an internal server error.
\<close>

theorem image_failure_is_reported:
  "fst (refresh_countries_data (sample_env\<lparr>image_save := False\<rparr>) empty_database) =
     \<lparr>status_code = 500, content = ErrorContent ''Internal server error'' None\<rparr> \<and>
   map name
     (countries (snd (refresh_countries_data (sample_env\<lparr>image_save := False\<rparr>) empty_database)))
     = [''Wakanda'']"
  by (simp add: refresh_countries_data_def sample_refresh_image_failure generic_exception_handler_def)

end
